theory Spec2Isabelle
  imports Complex_Main
begin

section \<open>The number model\<close>

text \<open>
  The program is TypeScript; every \<^verbatim>\<open>number\<close> is modelled as a real number.
  Rounding is not modelled, and the non-finite values (NaN, the infinities) are outside the
  model except where a definition below says otherwise. \<^verbatim>\<open>Math.PI\<close> is \<^term>\<open>pi\<close>,
  \<^verbatim>\<open>Math.cos\<close> and \<^verbatim>\<open>Math.sin\<close> are \<^term>\<open>cos\<close> and \<^term>\<open>sin\<close>.
  Objects that the source mutates in place are passed in and returned.

  Division needs care. Where the program divides by zero it goes on with a non-finite
  number, while division by zero is 0 in HOL. The divisors in the code below are the genome
  length, the current zoom level and a track count plus two. The specification requires a
  positive genome length; for genome length 0 the definitions \<open>canRenderLabel\<close> and
  \<open>featureAngles\<close> describe the model and not the program. The zoom level is required to
  be non-zero wherever a theorem depends on it.
\<close>

section \<open>Data model (types/core.ts, core/data/models/feature.ts, track.ts, genome.ts)\<close>

datatype Strand = Plus | Minus | Dot

text \<open>
  The \<^verbatim>\<open>Feature\<close> object. \<^verbatim>\<open>id\<close>, \<^verbatim>\<open>name\<close>, \<^verbatim>\<open>type\<close> and \<^verbatim>\<open>end\<close>
  carry a suffix because the plain names are taken. An optional field is an option.
\<close>

record Feature =
  id_f :: string
  name_f :: "string option"
  type_f :: string
  start :: real
  end_f :: real
  strand :: Strand
  attributes :: "string \<rightharpoonup> string"
  sequenceId :: "string option"

text \<open>
  The constructor argument \<^verbatim>\<open>Partial<Feature>\<close>: every field may be absent. The fields
  \<^verbatim>\<open>seqid\<close> and \<^verbatim>\<open>track\<close> of the interface are not read by the class and are left out.
\<close>

record FeatureData =
  id_d :: "string option"
  name_d :: "string option"
  type_d :: "string option"
  start_d :: "real option"
  end_d :: "real option"
  strand_d :: "Strand option"
  attributes_d :: "(string \<rightharpoonup> string) option"
  sequenceId_d :: "string option"

text \<open>
  \<^verbatim>\<open>generateId\<close> reads the clock and the random generator; the text it produces after
  the prefix is a parameter of the model.
\<close>

definition generateId :: "string \<Rightarrow> string" where
  "generateId stamp = ''feature_'' @ stamp"

text \<open>
  \<^verbatim>\<open>v || d\<close>: an absent value, the empty string and the number 0 are falsy. A strand is one
  of three non-empty strings and an attribute object is an object, so both are truthy
  whenever they are present.
\<close>

definition orString :: "string option \<Rightarrow> string \<Rightarrow> string" where
  "orString v d = (case v of Some s \<Rightarrow> (if s \<noteq> [] then s else d) | None \<Rightarrow> d)"

definition orNumber :: "real option \<Rightarrow> real \<Rightarrow> real" where
  "orNumber v d = (case v of Some x \<Rightarrow> (if x \<noteq> 0 then x else d) | None \<Rightarrow> d)"

definition newFeature :: "FeatureData \<Rightarrow> string \<Rightarrow> Feature" where
  "newFeature data stamp =
     (let this = \<lparr>id_f = orString (id_d data) (generateId stamp),
                  name_f = name_d data,
                  type_f = orString (type_d data) ''CDS'',
                  start = orNumber (start_d data) 0,
                  end_f = orNumber (end_d data) 0,
                  strand = (case strand_d data of Some s \<Rightarrow> s | None \<Rightarrow> Dot),
                  attributes = (case attributes_d data of Some a \<Rightarrow> a | None \<Rightarrow> Map.empty),
                  sequenceId = sequenceId_d data\<rparr>
      in if start this > end_f this
         then this\<lparr>start := end_f this, end_f := start this\<rparr>
         else this)"

text \<open>\<^verbatim>\<open>{ ...this.attributes }\<close> is a new object with the same entries.\<close>

definition toJSON :: "Feature \<Rightarrow> FeatureData" where
  "toJSON this =
     \<lparr>id_d = Some (id_f this),
      name_d = name_f this,
      type_d = Some (type_f this),
      start_d = Some (start this),
      end_d = Some (end_f this),
      strand_d = Some (strand this),
      attributes_d = Some (\<lambda>k. attributes this k),
      sequenceId_d = sequenceId this\<rparr>"

definition fromJSON :: "FeatureData \<Rightarrow> string \<Rightarrow> Feature" where
  "fromJSON data stamp = newFeature data stamp"

text \<open>A constructor argument for the examples.\<close>

definition exampleData :: FeatureData where
  "exampleData =
     \<lparr>id_d = None, name_d = Some ''dnaA'', type_d = None, start_d = Some 200,
      end_d = Some 100, strand_d = Some Minus,
      attributes_d = Some [''gene'' \<mapsto> ''dnaA''], sequenceId_d = None\<rparr>"

text \<open>\<^verbatim>\<open>color: string | number\<close>.\<close>

datatype TrackColor = ColorString string | ColorNumber real

record Track =
  id_t :: string
  name_t :: string
  type_t :: string
  color :: TrackColor
  visible :: bool
  height :: real
  features :: "Feature list"

text \<open>
  Of the genome only the tracks and the length are read by the code below; \<^verbatim>\<open>id\<close>,
  \<^verbatim>\<open>name\<close> and \<^verbatim>\<open>sequences\<close> are left out.
\<close>

record Genome =
  tracks :: "Track list"
  length_g :: real

section \<open>Spatial index (core/utils/spatial-index.ts)\<close>

text \<open>
  \<^verbatim>\<open>IntervalNode | null\<close>: a node holds its feature, its two children and the cached
  fields \<^verbatim>\<open>min\<close> and \<^verbatim>\<open>max\<close>. The constructor sets \<^verbatim>\<open>min = feature.start\<close> and
  \<^verbatim>\<open>max = feature.end\<close>; only \<^verbatim>\<open>updateMax\<close> ever writes one of them again.
\<close>

datatype IntervalNode =
  Null
| Node (feature: Feature) (left: IntervalNode) (right: IntervalNode) (min_n: real) (max_n: real)

definition newIntervalNode :: "Feature \<Rightarrow> IntervalNode" where
  "newIntervalNode f = Node f Null Null (start f) (end_f f)"

fun getCenter :: "IntervalNode \<Rightarrow> real" where
  "getCenter (Node f l r mn mx) = (start f + end_f f) / 2"
| "getCenter Null = 0"

fun updateMax :: "IntervalNode \<Rightarrow> IntervalNode" where
  "updateMax (Node f l r mn mx) =
     (let m0 = end_f f;
          m1 = (if l \<noteq> Null \<and> max_n l > m0 then max_n l else m0);
          m2 = (if r \<noteq> Null \<and> max_n r > m1 then max_n r else m1)
      in Node f l r mn m2)"
| "updateMax Null = Null"

fun insertNode :: "IntervalNode \<Rightarrow> Feature \<Rightarrow> IntervalNode" where
  "insertNode Null f = newIntervalNode f"
| "insertNode (Node g l r mn mx) f =
     (let nodeCenter = getCenter (Node g l r mn mx);
          featureCenter = (start f + end_f f) / 2
      in if featureCenter < nodeCenter
         then updateMax (Node g (insertNode l f) r mn mx)
         else updateMax (Node g l (insertNode r f) mn mx))"

definition intersects :: "Feature \<Rightarrow> real \<Rightarrow> real \<Rightarrow> bool" where
  "intersects f s e \<longleftrightarrow> end_f f \<ge> s \<and> start f \<le> e"

text \<open>\<^verbatim>\<open>queryNode\<close> pushes onto the caller's array; the array is passed in and returned.\<close>

fun queryNode :: "IntervalNode \<Rightarrow> real \<Rightarrow> real \<Rightarrow> Feature list \<Rightarrow> Feature list" where
  "queryNode Null s e results = results"
| "queryNode (Node f l r mn mx) s e results =
     (let results1 = (if intersects f s e then results @ [f] else results);
          results2 = (if l \<noteq> Null \<and> max_n l \<ge> s then queryNode l s e results1 else results1);
          results3 = (if r \<noteq> Null \<and> min_n r \<le> e then queryNode r s e results2 else results2)
      in results3)"

record IntervalTree =
  root :: IntervalNode
  features_by_id :: "string \<rightharpoonup> Feature"

definition emptyTree :: IntervalTree where
  "emptyTree = \<lparr>root = Null, features_by_id = Map.empty\<rparr>"

definition insert_t :: "IntervalTree \<Rightarrow> Feature \<Rightarrow> IntervalTree" where
  "insert_t t f =
     \<lparr>root = insertNode (root t) f, features_by_id = (features_by_id t)(id_f f \<mapsto> f)\<rparr>"

definition query :: "IntervalTree \<Rightarrow> real \<Rightarrow> real \<Rightarrow> Feature list" where
  "query t s e = queryNode (root t) s e []"

text \<open>A sequence of \<^verbatim>\<open>insert\<close> calls on an initially empty tree.\<close>

definition insertAll :: "Feature list \<Rightarrow> IntervalTree" where
  "insertAll fs = foldl insert_t emptyTree fs"

text \<open>A feature with the given id and coordinates, the other fields at the constructor's defaults.\<close>

definition mkFeature :: "string \<Rightarrow> real \<Rightarrow> real \<Rightarrow> Feature" where
  "mkFeature i s e =
     \<lparr>id_f = i, name_f = None, type_f = ''CDS'', start = s, end_f = e, strand = Dot,
      attributes = Map.empty, sequenceId = None\<rparr>"

section \<open>Label placement (core/renderer/circular/utils.ts, label-renderer.ts)\<close>

text \<open>An entry \<^verbatim>\<open>{ start, end }\<close> of the array \<^verbatim>\<open>renderedLabelAngles\<close>.\<close>

record LabelAngle =
  start_a :: real
  end_a :: real

definition checkAngleCollision :: "real \<Rightarrow> real \<Rightarrow> real \<Rightarrow> real \<Rightarrow> bool" where
  "checkAngleCollision currentStart currentEnd labelStart labelEnd \<longleftrightarrow>
     (currentStart < labelEnd \<and> currentEnd > labelStart) \<or>
     (currentStart + 2 * pi < labelEnd \<and> currentEnd + 2 * pi > labelStart)"

text \<open>
  \<^verbatim>\<open>canRenderLabel\<close> returns a boolean and may push onto \<^verbatim>\<open>renderedLabelAngles\<close>; the
  model returns the boolean together with the array after the call. \<^verbatim>\<open>Array.some\<close> is
  \<^const>\<open>list_ex\<close>.
\<close>

definition canRenderLabel ::
  "Feature \<Rightarrow> real \<Rightarrow> LabelAngle list \<Rightarrow> real \<Rightarrow> bool \<times> LabelAngle list" where
  "canRenderLabel f genomeLength renderedLabelAngles labelAngleWidth =
     (let featureStartAngle = (start f / genomeLength) * pi * 2;
          featureEndAngle = (end_f f / genomeLength) * pi * 2;
          featureCenterAngle = (featureStartAngle + featureEndAngle) / 2;
          labelStartAngle = featureCenterAngle - labelAngleWidth / 2;
          labelEndAngle = featureCenterAngle + labelAngleWidth / 2;
          isCollision = list_ex (\<lambda>label.
             checkAngleCollision labelStartAngle labelEndAngle (start_a label) (end_a label))
             renderedLabelAngles
      in if \<not> isCollision
         then (True, renderedLabelAngles @ [\<lparr>start_a = labelStartAngle, end_a = labelEndAngle\<rparr>])
         else (False, renderedLabelAngles))"

text \<open>
  The loop \<^verbatim>\<open>featuresWithLabels.forEach\<close> of \<^verbatim>\<open>renderCanvasLabels\<close> and
  \<^verbatim>\<open>renderSvgLabels\<close>: every feature is offered to \<^verbatim>\<open>canRenderLabel\<close> against the one
  shared array, and its label is drawn when the answer is true. The result is the list of
  features whose label was drawn and the array at the end.
\<close>

fun labelLoop ::
  "Feature list \<Rightarrow> real \<Rightarrow> LabelAngle list \<Rightarrow> real \<Rightarrow> Feature list \<times> LabelAngle list" where
  "labelLoop [] genomeLength rendered w = ([], rendered)"
| "labelLoop (f # fs) genomeLength rendered w =
     (case canRenderLabel f genomeLength rendered w of
        (True, rendered') \<Rightarrow>
          (case labelLoop fs genomeLength rendered' w of (drawn, out) \<Rightarrow> (f # drawn, out))
      | (False, rendered') \<Rightarrow> labelLoop fs genomeLength rendered' w)"

subsection \<open>The words of the specification about labels\<close>

text \<open>The angle of a genomic position, as the specification gives it: \<open>2\<pi> \<cdot> pos / length\<close>.\<close>

definition angleForPosition :: "real \<Rightarrow> real \<Rightarrow> real" where
  "angleForPosition pos genomeLength = 2 * pi * pos / genomeLength"

definition angularMidpoint :: "Feature \<Rightarrow> real \<Rightarrow> real" where
  "angularMidpoint f genomeLength =
     (angleForPosition (start f) genomeLength + angleForPosition (end_f f) genomeLength) / 2"

text \<open>The interval of width \<open>w\<close> centred on the feature's angular midpoint.\<close>

definition labelInterval :: "Feature \<Rightarrow> real \<Rightarrow> real \<Rightarrow> LabelAngle" where
  "labelInterval f genomeLength w =
     \<lparr>start_a = angularMidpoint f genomeLength - w / 2,
      end_a = angularMidpoint f genomeLength + w / 2\<rparr>"

text \<open>
  Two intervals overlap when each starts before the other ends; on the circle they are
  also compared after one of them is shifted by \<open>2\<pi>\<close> in either direction.
\<close>

definition overlaps :: "LabelAngle \<Rightarrow> LabelAngle \<Rightarrow> bool" where
  "overlaps a b \<longleftrightarrow> start_a a < end_a b \<and> end_a a > start_a b"

definition shift :: "real \<Rightarrow> LabelAngle \<Rightarrow> LabelAngle" where
  "shift d a = \<lparr>start_a = start_a a + d, end_a = end_a a + d\<rparr>"

definition overlapsWrapped :: "LabelAngle \<Rightarrow> LabelAngle \<Rightarrow> bool" where
  "overlapsWrapped a b \<longleftrightarrow>
     overlaps a b \<or> overlaps (shift (2 * pi) a) b \<or> overlaps (shift (- (2 * pi)) a) b"

section \<open>Level of detail (core/utils/lod-manager.ts)\<close>

text \<open>
  \<^verbatim>\<open>maxZoom\<close> of the last default level is \<^verbatim>\<open>Infinity\<close>, so an upper bound is a finite
  number or infinity; a zoom level is below infinity.
\<close>

datatype Bound = Finite real | Infinity

fun lessBound :: "real \<Rightarrow> Bound \<Rightarrow> bool" where
  "lessBound z (Finite m) \<longleftrightarrow> z < m"
| "lessBound z Infinity \<longleftrightarrow> True"

record LODLevel =
  minZoom :: real
  maxZoom :: Bound
  detailLevel :: nat
  showLabels :: bool
  showFeatures :: bool
  featureDensity :: real

record LODManager =
  levels :: "LODLevel list"

definition defaultLevels :: "LODLevel list" where
  "defaultLevels =
    [\<lparr>minZoom = 0, maxZoom = Finite (1 / 10), detailLevel = 1, showLabels = False,
      showFeatures = True, featureDensity = 1 / 100\<rparr>,
     \<lparr>minZoom = 1 / 10, maxZoom = Finite (1 / 2), detailLevel = 2, showLabels = False,
      showFeatures = True, featureDensity = 5 / 100\<rparr>,
     \<lparr>minZoom = 1 / 2, maxZoom = Finite 1, detailLevel = 3, showLabels = True,
      showFeatures = True, featureDensity = 1 / 10\<rparr>,
     \<lparr>minZoom = 1, maxZoom = Finite 2, detailLevel = 4, showLabels = True,
      showFeatures = True, featureDensity = 1 / 2\<rparr>,
     \<lparr>minZoom = 2, maxZoom = Finite 5, detailLevel = 5, showLabels = True,
      showFeatures = True, featureDensity = 1\<rparr>,
     \<lparr>minZoom = 5, maxZoom = Infinity, detailLevel = 6, showLabels = True,
      showFeatures = True, featureDensity = 2\<rparr>]"

text \<open>The constructor.\<close>

definition newLODManager :: LODManager where
  "newLODManager = \<lparr>levels = defaultLevels\<rparr>"

text \<open>
  \<^verbatim>\<open>getLOD\<close>: the \<^verbatim>\<open>for\<close> loop returns the first level that holds the zoom level;
  after the loop the last element of the array is returned, which is \<^verbatim>\<open>undefined\<close>
  (here \<^const>\<open>None\<close>) for an empty array.
\<close>

fun firstMatch :: "LODLevel list \<Rightarrow> real \<Rightarrow> LODLevel option" where
  "firstMatch [] zoomLevel = None"
| "firstMatch (level # rest) zoomLevel =
     (if zoomLevel \<ge> minZoom level \<and> lessBound zoomLevel (maxZoom level) then Some level
      else firstMatch rest zoomLevel)"

definition getLOD :: "LODManager \<Rightarrow> real \<Rightarrow> LODLevel option" where
  "getLOD m zoomLevel =
     (case firstMatch (levels m) zoomLevel of
        Some level \<Rightarrow> Some level
      | None \<Rightarrow> (if levels m = [] then None else Some (last (levels m))))"

text \<open>The specification's condition for a level to hold a zoom level: \<open>minZoom \<le> z < maxZoom\<close>.\<close>

definition inBucket :: "LODLevel \<Rightarrow> real \<Rightarrow> bool" where
  "inBucket l z \<longleftrightarrow> minZoom l \<le> z \<and> lessBound z (maxZoom l)"

section \<open>Feature rendering (core/renderer/circular/feature-renderer.ts, index.ts, utils.ts)\<close>

text \<open>
  The file \<^verbatim>\<open>config.ts\<close> that defines \<^verbatim>\<open>RENDER_CONFIG\<close> is not among the sources, so the
  constants the code reads from it are a parameter of every function that uses them.
\<close>

record RenderConfig =
  MIN_TRACK_HEIGHT :: real
  MAX_TRACK_HEIGHT :: real
  TRACK_SPACING :: real
  MIN_ANGLE_WIDTH :: real
  MIN_GAP_ANGLE :: real
  MAX_GAP_ANGLE :: real
  GAP_ANGLE_RATIO :: real

text \<open>
  The fields of \<^verbatim>\<open>FeatureRenderer\<close> that the functions below read. \<^verbatim>\<open>highlightedFeature\<close>
  is \<^verbatim>\<open>null\<close> until \<^verbatim>\<open>highlightFeature\<close> is called.
\<close>

record FeatureRenderer =
  centerX_fr :: real
  centerY_fr :: real
  radius_fr :: real
  zoomLevel_fr :: real
  highlightedFeature :: "Feature option"

definition calculateTrackHeight ::
  "RenderConfig \<Rightarrow> FeatureRenderer \<Rightarrow> nat \<Rightarrow> bool \<Rightarrow> bool \<Rightarrow> real" where
  "calculateTrackHeight cfg this nonGCTrackCount gcContentVisible gcSkewVisible =
     (let minTrackHeight = MIN_TRACK_HEIGHT cfg;
          maxTrackHeight = MAX_TRACK_HEIGHT cfg;
          actualTrackCount0 = nonGCTrackCount;
          actualTrackCount1 = (if gcContentVisible then actualTrackCount0 + 1 else actualTrackCount0);
          actualTrackCount = (if gcSkewVisible then actualTrackCount1 + 1 else actualTrackCount1)
      in min maxTrackHeight (max minTrackHeight (radius_fr this / real (actualTrackCount + 2))))"

text \<open>
  What the layout of a track leaves on the canvas is recorded as one band per call of
  \<^verbatim>\<open>renderCanvasTrackBackground\<close>, with the arguments of that call: the outer radius,
  the track height, the colour and the type. The features are then drawn inside that band;
  drawing them neither reads nor changes \<^verbatim>\<open>currentRadius\<close> and is not part of the
  functions below (a single feature is \<open>renderCanvasFeature\<close> further down).
\<close>

record Band =
  radius_b :: real
  trackHeight_b :: real
  trackColor_b :: TrackColor
  trackType_b :: string

fun renderCanvasNonGCTracks ::
  "Track list \<Rightarrow> real \<Rightarrow> real \<Rightarrow> real \<Rightarrow> Band list \<times> real" where
  "renderCanvasNonGCTracks [] currentRadius trackHeight trackSpacing = ([], currentRadius)"
| "renderCanvasNonGCTracks (track # rest) currentRadius trackHeight trackSpacing =
     (let band = \<lparr>radius_b = currentRadius, trackHeight_b = trackHeight,
                   trackColor_b = color track, trackType_b = type_t track\<rparr>;
          (bands, r) = renderCanvasNonGCTracks rest (currentRadius - (trackHeight + trackSpacing))
                         trackHeight trackSpacing
      in (band # bands, r))"

definition renderCanvasGCTrack :: "Track \<Rightarrow> real \<Rightarrow> real \<Rightarrow> real \<Rightarrow> Band \<times> real" where
  "renderCanvasGCTrack track currentRadius trackHeight trackSpacing =
     (\<lparr>radius_b = currentRadius, trackHeight_b = trackHeight,
       trackColor_b = color track, trackType_b = type_t track\<rparr>,
      currentRadius - trackHeight - trackSpacing)"

text \<open>
  The two skew tracks arrive as \<^verbatim>\<open>Track | undefined\<close> behind a non-null assertion. Reading
  \<^verbatim>\<open>color\<close> of \<^verbatim>\<open>undefined\<close> throws; that outcome is \<^const>\<open>None\<close>.
\<close>

definition renderCanvasGCSkewTracks ::
  "Track option \<Rightarrow> Track option \<Rightarrow> bool \<Rightarrow> bool \<Rightarrow> real \<Rightarrow> real \<Rightarrow> real
   \<Rightarrow> (Band \<times> real) option" where
  "renderCanvasGCSkewTracks gcSkewPlusTrack gcSkewMinusTrack gcSkewPlusVisible gcSkewMinusVisible
      currentRadius trackHeight trackSpacing =
     (case (if gcSkewPlusVisible then gcSkewPlusTrack else gcSkewMinusTrack) of
        None \<Rightarrow> None
      | Some skewTrack \<Rightarrow>
          Some (\<lparr>radius_b = currentRadius, trackHeight_b = trackHeight,
                 trackColor_b = color skewTrack, trackType_b = type_t skewTrack\<rparr>,
                currentRadius - trackHeight - trackSpacing))"

text \<open>The fields of \<^verbatim>\<open>CircularRenderer\<close> that \<^verbatim>\<open>renderCanvasFeatures\<close> reads.\<close>

record CircularRenderer =
  genome :: "Genome option"
  radius_r :: real
  featureRenderer :: FeatureRenderer

text \<open>\<^verbatim>\<open>track && track.visible\<close> for a track that \<^verbatim>\<open>find\<close> may not have found.\<close>

definition trackVisible :: "Track option \<Rightarrow> bool" where
  "trackVisible t = (case t of Some track \<Rightarrow> visible track | None \<Rightarrow> False)"

text \<open>
  \<^verbatim>\<open>renderCanvasFeatures\<close>: nothing is drawn without a genome. The result is the list of
  bands in drawing order, or \<^const>\<open>None\<close> if a property of \<^verbatim>\<open>undefined\<close> was read.
\<close>

definition renderCanvasFeatures :: "RenderConfig \<Rightarrow> CircularRenderer \<Rightarrow> Band list option" where
  "renderCanvasFeatures cfg this =
     (case genome this of
        None \<Rightarrow> Some []
      | Some g \<Rightarrow>
         (let allTracks = tracks g;
              nonGCTracks = filter (\<lambda>track. type_t track \<noteq> ''gc_content'' \<and>
                 type_t track \<noteq> ''gc_skew_plus'' \<and> type_t track \<noteq> ''gc_skew_minus'') allTracks;
              gcContentTrack = find (\<lambda>track. type_t track = ''gc_content'') allTracks;
              gcSkewPlusTrack = find (\<lambda>track. type_t track = ''gc_skew_plus'') allTracks;
              gcSkewMinusTrack = find (\<lambda>track. type_t track = ''gc_skew_minus'') allTracks;
              visibleNonGCTracks = filter visible nonGCTracks;
              gcContentVisible = trackVisible gcContentTrack;
              gcSkewPlusVisible = trackVisible gcSkewPlusTrack;
              gcSkewMinusVisible = trackVisible gcSkewMinusTrack;
              gcSkewVisible = (gcSkewPlusVisible \<or> gcSkewMinusVisible);
              trackHeight = calculateTrackHeight cfg (featureRenderer this)
                 (length visibleNonGCTracks) gcContentVisible gcSkewVisible;
              trackSpacing = TRACK_SPACING cfg;
              currentRadius0 = radius_r this;
              (bands1, currentRadius1) =
                 renderCanvasNonGCTracks visibleNonGCTracks currentRadius0 trackHeight trackSpacing;
              step2 = (if gcContentVisible
                 then (case gcContentTrack of
                         None \<Rightarrow> None
                       | Some track \<Rightarrow>
                           (let (band, r) = renderCanvasGCTrack track currentRadius1 trackHeight
                                              trackSpacing
                            in Some (bands1 @ [band], r)))
                 else Some (bands1, currentRadius1))
          in case step2 of
               None \<Rightarrow> None
             | Some (bands2, currentRadius2) \<Rightarrow>
                 (if gcSkewVisible
                  then (case renderCanvasGCSkewTracks gcSkewPlusTrack gcSkewMinusTrack
                               gcSkewPlusVisible gcSkewMinusVisible currentRadius2 trackHeight
                               trackSpacing of
                          None \<Rightarrow> None
                        | Some (band, r) \<Rightarrow> Some (bands2 @ [band]))
                  else Some bands2)))"


subsection \<open>The words of the specification about the track layout\<close>

definition clamp :: "real \<Rightarrow> real \<Rightarrow> real \<Rightarrow> real" where
  "clamp x lo hi = (if x < lo then lo else if hi < x then hi else x)"

definition isGCType :: "string \<Rightarrow> bool" where
  "isGCType ty \<longleftrightarrow> ty = ''gc_content'' \<or> ty = ''gc_skew_plus'' \<or> ty = ''gc_skew_minus''"

text \<open>
  The track of a GC type is the first track of that type in the list; it is shown when it
  is visible. The skew band is shown when the plus track or the minus track is.
\<close>

definition firstOfType :: "string \<Rightarrow> Track list \<Rightarrow> Track option" where
  "firstOfType ty ts = find (\<lambda>t. type_t t = ty) ts"

definition gcContentShown :: "Track list \<Rightarrow> bool" where
  "gcContentShown ts = trackVisible (firstOfType ''gc_content'' ts)"

definition gcSkewShown :: "Track list \<Rightarrow> bool" where
  "gcSkewShown ts \<longleftrightarrow> trackVisible (firstOfType ''gc_skew_plus'' ts)
     \<or> trackVisible (firstOfType ''gc_skew_minus'' ts)"

text \<open>
  The count of the claim: the visible non-GC tracks, one more if \<^verbatim>\<open>gc_content\<close> is shown,
  one more if a skew track is shown.
\<close>

definition visibleCount :: "Track list \<Rightarrow> nat" where
  "visibleCount ts =
     length (filter (\<lambda>t. visible t \<and> \<not> isGCType (type_t t)) ts)
     + (if gcContentShown ts then 1 else 0) + (if gcSkewShown ts then 1 else 0)"

definition bandHeight :: "RenderConfig \<Rightarrow> real \<Rightarrow> Track list \<Rightarrow> real" where
  "bandHeight cfg outerRadius ts =
     clamp (outerRadius / real (visibleCount ts + 2)) (MIN_TRACK_HEIGHT cfg) (MAX_TRACK_HEIGHT cfg)"

text \<open>
  The tracks in the order of their bands: the visible non-GC tracks in list order, then
  \<^verbatim>\<open>gc_content\<close>, then the one skew band, which takes colour and type from the plus track
  if that is shown and from the minus track otherwise.
\<close>

definition shownTrack :: "Track option \<Rightarrow> Track list" where
  "shownTrack t = (case t of Some track \<Rightarrow> (if visible track then [track] else []) | None \<Rightarrow> [])"

definition bandTracks :: "Track list \<Rightarrow> Track list" where
  "bandTracks ts =
     filter (\<lambda>t. visible t \<and> \<not> isGCType (type_t t)) ts
     @ shownTrack (firstOfType ''gc_content'' ts)
     @ (if trackVisible (firstOfType ''gc_skew_plus'' ts)
        then shownTrack (firstOfType ''gc_skew_plus'' ts)
        else shownTrack (firstOfType ''gc_skew_minus'' ts))"

text \<open>No GC type occurs on more than one track.\<close>

definition onePerGCType :: "Track list \<Rightarrow> bool" where
  "onePerGCType ts \<longleftrightarrow>
     length (filter (\<lambda>t. type_t t = ''gc_content'') ts) \<le> 1 \<and>
     length (filter (\<lambda>t. type_t t = ''gc_skew_plus'') ts) \<le> 1 \<and>
     length (filter (\<lambda>t. type_t t = ''gc_skew_minus'') ts) \<le> 1"

text \<open>The band number \<open>k\<close>, counted from 0 at the outer radius \<open>R\<close>.\<close>

definition bandAt :: "real \<Rightarrow> real \<Rightarrow> real \<Rightarrow> nat \<Rightarrow> Track \<Rightarrow> Band" where
  "bandAt R h s k t =
     \<lparr>radius_b = R - real k * (h + s), trackHeight_b = h, trackColor_b = color t,
      trackType_b = type_t t\<rparr>"

definition expectedBands :: "real \<Rightarrow> real \<Rightarrow> real \<Rightarrow> Track list \<Rightarrow> Band list" where
  "expectedBands R h s ts = map (\<lambda>(k, t). bandAt R h s k t) (enumerate 0 ts)"

text \<open>
  A template literal turns a number into text with \<^verbatim>\<open>Number::toString\<close>, which gives
  \<^verbatim>\<open>"0"\<close> for 0 and \<^verbatim>\<open>"1"\<close> for 1. The decimal text of every other number is the
  parameter \<open>fmt\<close>.
\<close>

definition numberToString :: "(real \<Rightarrow> string) \<Rightarrow> real \<Rightarrow> string" where
  "numberToString fmt x = (if x = 0 then ''0'' else if x = 1 then ''1'' else fmt x)"

definition createArcPath ::
  "(real \<Rightarrow> string) \<Rightarrow> real \<Rightarrow> real \<Rightarrow> real \<Rightarrow> real \<Rightarrow> real \<Rightarrow> real \<Rightarrow> string" where
  "createArcPath fmt cx cy outerRadius innerRadius startAngle endAngle =
     (let str = numberToString fmt;
          startX1 = cx + cos startAngle * outerRadius;
          startY1 = cy + sin startAngle * outerRadius;
          endX1 = cx + cos endAngle * outerRadius;
          endY1 = cy + sin endAngle * outerRadius;
          startX2 = cx + cos endAngle * innerRadius;
          startY2 = cy + sin endAngle * innerRadius;
          endX2 = cx + cos startAngle * innerRadius;
          endY2 = cy + sin startAngle * innerRadius;
          largeArcFlag = (if endAngle - startAngle > pi then 1 else 0)
      in (''M '' @ str startX1 @ '' '' @ str startY1 @ '' '') @
         (''A '' @ str outerRadius @ '' '' @ str outerRadius @ '' 0 '' @ str largeArcFlag
            @ '' 1 '' @ str endX1 @ '' '' @ str endY1 @ '' '') @
         (''L '' @ str startX2 @ '' '' @ str startY2 @ '' '') @
         (''A '' @ str innerRadius @ '' '' @ str innerRadius @ '' 0 '' @ str largeArcFlag
            @ '' 0 '' @ str endX2 @ '' '' @ str endY2 @ '' Z''))"

text \<open>
  \<^verbatim>\<open>renderCanvasFeature\<close> and \<^verbatim>\<open>renderSvgFeature\<close> start with the same computation of
  \<^verbatim>\<open>startAngle\<close>, \<^verbatim>\<open>endAngle\<close> and \<^verbatim>\<open>angleWidth\<close>; it is \<open>featureAngles\<close>. The three
  reassignments inside \<^verbatim>\<open>if (baseAngleWidth < minAngleWidth)\<close> are three conditionals on
  the same test.
\<close>

record FeatureAngles =
  startAngle :: real
  endAngle :: real
  angleWidth :: real

definition featureAngles :: "RenderConfig \<Rightarrow> Feature \<Rightarrow> real \<Rightarrow> FeatureAngles" where
  "featureAngles cfg f genomeLength =
     (let baseStartAngle0 = (start f / genomeLength) * pi * 2;
          baseEndAngle0 = (end_f f / genomeLength) * pi * 2;
          baseAngleWidth0 = baseEndAngle0 - baseStartAngle0;
          minAngleWidth = MIN_ANGLE_WIDTH cfg;
          centerAngle = (baseStartAngle0 + baseEndAngle0) / 2;
          halfMinAngle = minAngleWidth / 2;
          baseStartAngle = (if baseAngleWidth0 < minAngleWidth then centerAngle - halfMinAngle
                            else baseStartAngle0);
          baseEndAngle = (if baseAngleWidth0 < minAngleWidth then centerAngle + halfMinAngle
                          else baseEndAngle0);
          baseAngleWidth = (if baseAngleWidth0 < minAngleWidth then minAngleWidth
                            else baseAngleWidth0);
          minGapAngle = MIN_GAP_ANGLE cfg;
          maxGapAngle = MAX_GAP_ANGLE cfg;
          gapAngle = min maxGapAngle (max minGapAngle (baseAngleWidth * GAP_ANGLE_RATIO cfg))
      in \<lparr>startAngle = baseStartAngle + gapAngle,
          endAngle = baseEndAngle - gapAngle,
          angleWidth = (baseEndAngle - gapAngle) - (baseStartAngle + gapAngle)\<rparr>)"

text \<open>
  The test \<^verbatim>\<open>isHighlighted\<close> and the test that guards the interactive part
  (\<^verbatim>\<open>feature.type === 'gene' || feature.type === 'CDS' || feature.name || feature.id\<close>).
\<close>

definition isHighlighted :: "FeatureRenderer \<Rightarrow> Feature \<Rightarrow> bool" where
  "isHighlighted this f =
     (case highlightedFeature this of
        None \<Rightarrow> False
      | Some hf \<Rightarrow>
          (id_f hf \<noteq> [] \<and> id_f f = id_f hf) \<or>
          ((case name_f hf of Some n \<Rightarrow> n \<noteq> [] | None \<Rightarrow> False) \<and> name_f f = name_f hf) \<or>
          (start f = start hf \<and> end_f f = end_f hf))"

definition isInteractive :: "Feature \<Rightarrow> bool" where
  "isInteractive f \<longleftrightarrow>
     type_f f = ''gene'' \<or> type_f f = ''CDS'' \<or>
     (case name_f f of Some n \<Rightarrow> n \<noteq> [] | None \<Rightarrow> False) \<or> id_f f \<noteq> []"

text \<open>
  What \<^verbatim>\<open>renderCanvasFeature\<close> draws: on a GC track it hands \<^verbatim>\<open>startAngle\<close>, \<^verbatim>\<open>endAngle\<close>
  and \<^verbatim>\<open>angleWidth\<close> to \<^verbatim>\<open>renderCanvasGCFeature\<close>; on another track it fills the sector
  between an outer and an inner radius from a start angle to an end angle, or draws
  nothing. A highlighted feature is drawn 2 wider on both radii and 0.01 longer on both
  angles.
\<close>

datatype CanvasDraw =
  CanvasGCFeature real real real
| CanvasArc real real real real
| CanvasNothing

definition renderCanvasFeature ::
  "RenderConfig \<Rightarrow> FeatureRenderer \<Rightarrow> Feature \<Rightarrow> Track \<Rightarrow> real \<Rightarrow> real \<Rightarrow> real \<Rightarrow> CanvasDraw" where
  "renderCanvasFeature cfg this f track radius trackHeight genomeLength =
     (let a = featureAngles cfg f genomeLength
      in if type_t track = ''gc_content'' \<or> type_t track = ''gc_skew_plus''
            \<or> type_t track = ''gc_skew_minus''
         then CanvasGCFeature (startAngle a) (endAngle a) (angleWidth a)
         else if angleWidth a > 0
         then (if isInteractive f \<and> isHighlighted this f
               then CanvasArc (radius + 2) (radius - trackHeight - 2)
                      (startAngle a - 1 / 100) (endAngle a + 1 / 100)
               else CanvasArc radius (radius - trackHeight) (startAngle a) (endAngle a))
         else CanvasNothing)"

text \<open>
  \<^verbatim>\<open>renderSvgFeature\<close> returns at once without a container; otherwise it appends a
  path to the group \<^verbatim>\<open>featureContainer\<close> and sets its attribute \<^verbatim>\<open>d\<close> to the text
  \<^verbatim>\<open>createArcPath\<close> gives.
\<close>

datatype SvgDraw =
  SvgGCFeature real real real
| SvgPath string
| SvgNothing

definition renderSvgFeature ::
  "(real \<Rightarrow> string) \<Rightarrow> RenderConfig \<Rightarrow> FeatureRenderer \<Rightarrow> Feature \<Rightarrow> Track \<Rightarrow> real \<Rightarrow> real
   \<Rightarrow> real \<Rightarrow> bool \<Rightarrow> SvgDraw" where
  "renderSvgFeature fmt cfg this f track radius trackHeight genomeLength svgContainer =
     (if \<not> svgContainer then SvgNothing
      else
       (let a = featureAngles cfg f genomeLength
        in if type_t track = ''gc_content'' \<or> type_t track = ''gc_skew_plus''
              \<or> type_t track = ''gc_skew_minus''
           then SvgGCFeature (startAngle a) (endAngle a) (angleWidth a)
           else if angleWidth a > 0
           then (if isInteractive f \<and> isHighlighted this f
                 then SvgPath (createArcPath fmt (centerX_fr this) (centerY_fr this) (radius + 2)
                        (radius - trackHeight - 2) (startAngle a - 1 / 100) (endAngle a + 1 / 100))
                 else SvgPath (createArcPath fmt (centerX_fr this) (centerY_fr this) radius
                        (radius - trackHeight) (startAngle a) (endAngle a)))
           else SvgNothing))"

subsection \<open>The words of the specification about a feature's angles\<close>

text \<open>
  The gap angle for a base width \<open>w\<close>, and the base angular span of a feature: its end and
  start mapped through the angle formula.
\<close>

definition gapFor :: "RenderConfig \<Rightarrow> real \<Rightarrow> real" where
  "gapFor cfg w = min (MAX_GAP_ANGLE cfg) (max (MIN_GAP_ANGLE cfg) (w * GAP_ANGLE_RATIO cfg))"

definition baseSpan :: "Feature \<Rightarrow> real \<Rightarrow> real" where
  "baseSpan f genomeLength =
     angleForPosition (end_f f) genomeLength - angleForPosition (start f) genomeLength"

text \<open>A configuration and a renderer for the examples.\<close>

definition exampleConfig :: RenderConfig where
  "exampleConfig =
     \<lparr>MIN_TRACK_HEIGHT = 15, MAX_TRACK_HEIGHT = 30, TRACK_SPACING = 5,
      MIN_ANGLE_WIDTH = 1 / 100, MIN_GAP_ANGLE = 1 / 1000, MAX_GAP_ANGLE = 5 / 1000,
      GAP_ANGLE_RATIO = 1 / 10\<rparr>"

definition exampleRenderer :: FeatureRenderer where
  "exampleRenderer =
     \<lparr>centerX_fr = 400, centerY_fr = 300, radius_fr = 200, zoomLevel_fr = 1,
      highlightedFeature = None\<rparr>"

definition exampleTrack :: "string \<Rightarrow> bool \<Rightarrow> Track" where
  "exampleTrack ty v =
     \<lparr>id_t = ty, name_t = ty, type_t = ty, color = ColorString ''#4CAF50'', visible = v,
      height = 30, features = []\<rparr>"

definition exampleTracks :: "Track list" where
  "exampleTracks =
     [exampleTrack ''CDS'' True, exampleTrack ''tRNA'' False, exampleTrack ''rRNA'' True,
      exampleTrack ''gc_content'' True, exampleTrack ''gc_skew_plus'' False,
      exampleTrack ''gc_skew_minus'' True]"

definition exampleCircularRenderer :: CircularRenderer where
  "exampleCircularRenderer =
     \<lparr>genome = Some \<lparr>tracks = exampleTracks, length_g = 10000\<rparr>, radius_r = 200,
      featureRenderer = exampleRenderer\<rparr>"

text \<open>
  The grammar of an annulus sector,
  \<^verbatim>\<open>M x1 y1 A rx ry 0 f 1 x2 y2 L x3 y3 A rx ry 0 f 0 x4 y4 Z\<close>: the words of the path
  separated by single spaces.
\<close>

fun unwords :: "string list \<Rightarrow> string" where
  "unwords [] = []"
| "unwords [w] = w"
| "unwords (w # ws) = w @ '' '' @ unwords ws"

text \<open>An arc command \<^verbatim>\<open>A rx ry 0 large-arc sweep x y\<close>, each part as text.\<close>

record ArcText =
  rx :: string
  ry :: string
  largeArc :: string
  sweep :: string
  x_to :: string
  y_to :: string

definition arcWords :: "ArcText \<Rightarrow> string list" where
  "arcWords a = [''A'', rx a, ry a, ''0'', largeArc a, sweep a, x_to a, y_to a]"

text \<open>
  The sector path: move to a point, first arc, line to a point, second arc, close.
\<close>

definition sectorPath :: "string \<times> string \<Rightarrow> ArcText \<Rightarrow> string \<times> string \<Rightarrow> ArcText \<Rightarrow> string" where
  "sectorPath m a1 l a2 =
     unwords ([''M'', fst m, snd m] @ arcWords a1 @ [''L'', fst l, snd l] @ arcWords a2
              @ [''Z''])"

section \<open>Zoom and pan (core/renderer/circular/zoom-pan-controller.ts)\<close>

text \<open>
  A screen point or a pan offset \<^verbatim>\<open>{ x, y }\<close>; the part of a \<^verbatim>\<open>PIXI.Container\<close> that
  the controller reads and writes (\<^verbatim>\<open>scale.set(s)\<close> sets both components); and the
  controller's own fields.
\<close>

record Point =
  x_p :: real
  y_p :: real

record Container =
  position_x :: real
  position_y :: real
  scale_x :: real
  scale_y :: real



text \<open>
  The SVG container is absent, or it is the list of its groups. Of a group the code reads
  the \<^verbatim>\<open>id\<close> (through the selector) and the attribute \<^verbatim>\<open>transform\<close>, which it parses
  with \<^verbatim>\<open>/translate\(([^,]+),([^\)]+)\)/\<close> and \<^verbatim>\<open>parseFloat\<close>. The attribute is kept as
  that parse sees it: absent, \<^verbatim>\<open>translate(x,y)\<close>, \<^verbatim>\<open>translate(x,y) scale(s)\<close> (the two
  texts this code writes), or a text the pattern does not match. An absent attribute is
  read as \<^verbatim>\<open>translate(0,0)\<close>.
\<close>

datatype Transform =
  Translate real real
| TranslateScale real real real
| Unmatched

record SvgGroup =
  id_s :: string
  transform :: "Transform option"

text \<open>
  The selector \<^verbatim>\<open>g#gridContainer, g#featureContainer, g#labelContainer, g#scaleContainer\<close>.
\<close>

definition sceneGroup :: "SvgGroup \<Rightarrow> bool" where
  "sceneGroup g \<longleftrightarrow> id_s g = ''gridContainer'' \<or> id_s g = ''featureContainer''
     \<or> id_s g = ''labelContainer'' \<or> id_s g = ''scaleContainer''"

fun matchTranslate :: "Transform option \<Rightarrow> (real \<times> real) option" where
  "matchTranslate None = Some (0, 0)"
| "matchTranslate (Some (Translate x y)) = Some (x, y)"
| "matchTranslate (Some (TranslateScale x y s)) = Some (x, y)"
| "matchTranslate (Some Unmatched) = None"

text \<open>
  \<^verbatim>\<open>currentX\<close> and \<^verbatim>\<open>currentY\<close> of \<^verbatim>\<open>setSvgZoomLevel\<close>: 0 when there is no match.
\<close>

definition currentXY :: "Transform option \<Rightarrow> real \<times> real" where
  "currentXY t = (case matchTranslate t of Some (x, y) \<Rightarrow> (x, y) | None \<Rightarrow> (0, 0))"


text \<open>
  \<^verbatim>\<open>setPanOffset\<close> returns the stage and the SVG container after the call. In SVG it
  writes \<^verbatim>\<open>translate(x,y)\<close> alone, so a \<^verbatim>\<open>scale\<close> part of the attribute is not kept.
\<close>

definition setPanOffset ::
  "Point \<Rightarrow> Container list option \<Rightarrow> SvgGroup list option \<Rightarrow> string
   \<Rightarrow> Container list option \<times> SvgGroup list option" where
  "setPanOffset offset stage svgContainer rendererType =
     (if rendererType = ''canvas''
      then (case stage of
              Some (circleContainer # others) \<Rightarrow>
                (Some (circleContainer\<lparr>position_x := position_x circleContainer + x_p offset,
                                        position_y := position_y circleContainer + y_p offset\<rparr>
                       # others), svgContainer)
            | _ \<Rightarrow> (stage, svgContainer))
      else if rendererType = ''svg''
      then (case svgContainer of
              Some groups \<Rightarrow>
                (stage, Some (map (\<lambda>g.
                   if sceneGroup g
                   then (case matchTranslate (transform g) of
                           Some (mx, my) \<Rightarrow>
                             g\<lparr>transform := Some (Translate (mx + x_p offset) (my + y_p offset))\<rparr>
                         | None \<Rightarrow>
                             g\<lparr>transform := Some (Translate (x_p offset) (y_p offset))\<rparr>)
                   else g) groups))
            | None \<Rightarrow> (stage, svgContainer))
      else (stage, svgContainer))"

subsection \<open>The words of the specification about zoom and pan\<close>




definition svgPanGroup :: "Point \<Rightarrow> SvgGroup \<Rightarrow> SvgGroup" where
  "svgPanGroup offset g =
     (if sceneGroup g
      then g\<lparr>transform := Some (Translate (fst (currentXY (transform g)) + x_p offset)
                                          (snd (currentXY (transform g)) + y_p offset))\<rparr>
      else g)"


definition exampleStage :: "Container list" where
  "exampleStage =
     [\<lparr>position_x = 0, position_y = 0, scale_x = 1, scale_y = 1\<rparr>,
      \<lparr>position_x = 0, position_y = 0, scale_x = 1, scale_y = 1\<rparr>]"

definition exampleSvg :: "SvgGroup list" where
  "exampleSvg =
     [\<lparr>id_s = ''gridContainer'', transform = None\<rparr>,
      \<lparr>id_s = ''featureContainer'', transform = Some (TranslateScale 10 20 1)\<rparr>,
      \<lparr>id_s = ''labelContainer'', transform = Some (Translate 10 20)\<rparr>,
      \<lparr>id_s = ''scaleContainer'', transform = None\<rparr>,
      \<lparr>id_s = ''legendContainer'', transform = None\<rparr>]"

section \<open>Claims\<close>

subsection \<open>C1: interval tree query\<close>

text \<open>
  C1 says that after any sequence of inserts \<^verbatim>\<open>query(a,b)\<close> returns exactly the inserted
  features with \<^verbatim>\<open>end >= a\<close> and \<^verbatim>\<open>start <= b\<close>. The code does not: the right subtree is
  pruned on the right child's own \<^verbatim>\<open>min\<close>, which is that child's feature start and not
  the least start below it. After inserting [1,20], [50,60], [10,90] in this order the
  feature [10,90] hangs to the left of [50,60]; the query (15,30) stops at [50,60], whose
  start is above 30, and returns only [1,20], although [10,90] was inserted and overlaps
  the range.
\<close>

theorem C1_query_misses_overlapping_feature:
  "query (insertAll [mkFeature ''a'' 1 20, mkFeature ''b'' 50 60, mkFeature ''c'' 10 90]) 15 30
     = [mkFeature ''a'' 1 20]
   \<and> intersects (mkFeature ''c'' 10 90) 15 30
   \<and> mkFeature ''c'' 10 90 \<notin> set (query (insertAll [mkFeature ''a'' 1 20, mkFeature ''b'' 50 60,
        mkFeature ''c'' 10 90]) 15 30)"
  by (simp add: query_def insertAll_def insert_t_def emptyTree_def newIntervalNode_def
      intersects_def mkFeature_def)

subsection \<open>C2: accepted labels and the wrap-around\<close>

text \<open>
  C2 says that no two accepted label intervals overlap, also after one of them is shifted
  by \<open>+2\<pi>\<close> or by \<open>-2\<pi>\<close>. \<^verbatim>\<open>checkAngleCollision\<close> shifts only the new interval, and
  only by \<open>+2\<pi>\<close>. With genome length 1000 and label width 2/5, the feature [1,41] is
  accepted first (midpoint \<open>0.042\<pi>\<close>), and then the feature [960,1000] (midpoint \<open>1.96\<pi>\<close>)
  is accepted as well, although its interval shifted by \<open>-2\<pi>\<close> overlaps the first one:
  the two labels are 0.082\<open>\<pi>\<close> apart across the origin, less than the label width.
\<close>

theorem C2_wraparound_overlap_accepted:
  "labelLoop [mkFeature ''a'' 1 41, mkFeature ''b'' 960 1000] 1000 [] (2 / 5)
     = ([mkFeature ''a'' 1 41, mkFeature ''b'' 960 1000],
        [labelInterval (mkFeature ''a'' 1 41) 1000 (2 / 5),
         labelInterval (mkFeature ''b'' 960 1000) 1000 (2 / 5)])
   \<and> overlaps (shift (- (2 * pi)) (labelInterval (mkFeature ''b'' 960 1000) 1000 (2 / 5)))
        (labelInterval (mkFeature ''a'' 1 41) 1000 (2 / 5))
   \<and> overlapsWrapped (labelInterval (mkFeature ''b'' 960 1000) 1000 (2 / 5))
        (labelInterval (mkFeature ''a'' 1 41) 1000 (2 / 5))"
  using pi_ge_two pi_less_4
  by (simp add: canRenderLabel_def Let_def mkFeature_def checkAngleCollision_def
      labelInterval_def angularMidpoint_def angleForPosition_def overlapsWrapped_def
      overlaps_def shift_def)

subsection \<open>C10: what canRenderLabel returns and writes\<close>

lemma featureCenterAngle_eq:
  "((start f / gl) * pi * 2 + (end_f f / gl) * pi * 2) / 2 = angularMidpoint f gl"
  by (simp add: angularMidpoint_def angleForPosition_def mult.commute)

text \<open>
  C10: \<^verbatim>\<open>canRenderLabel\<close> returns true exactly when the interval of width \<open>w\<close> centred
  on the feature's angular midpoint collides, under \<^verbatim>\<open>checkAngleCollision\<close>, with no
  entry of \<^verbatim>\<open>renderedLabelAngles\<close>; when it returns true the array afterwards is the
  old array with exactly that interval appended, and when it returns false the array is
  unchanged.
\<close>

theorem C10_canRenderLabel_iff_no_collision:
  "(fst (canRenderLabel f gl rs w) \<longleftrightarrow>
      (\<forall>r \<in> set rs. \<not> checkAngleCollision (start_a (labelInterval f gl w))
          (end_a (labelInterval f gl w)) (start_a r) (end_a r)))
   \<and> (fst (canRenderLabel f gl rs w) \<longrightarrow>
        snd (canRenderLabel f gl rs w) = rs @ [labelInterval f gl w])
   \<and> (\<not> fst (canRenderLabel f gl rs w) \<longrightarrow> snd (canRenderLabel f gl rs w) = rs)"
  unfolding canRenderLabel_def Let_def featureCenterAngle_eq labelInterval_def
  by (simp add: list_ex_iff)

theorem C10_canRenderLabel_witness:
  "canRenderLabel (mkFeature ''a'' 1 41) 1000 [] (2 / 5)
     = (True, [labelInterval (mkFeature ''a'' 1 41) 1000 (2 / 5)])
   \<and> canRenderLabel (mkFeature ''c'' 11 51) 1000
        [labelInterval (mkFeature ''a'' 1 41) 1000 (2 / 5)] (2 / 5)
     = (False, [labelInterval (mkFeature ''a'' 1 41) 1000 (2 / 5)])"
proof -
  have accepted: "fst (canRenderLabel (mkFeature ''a'' 1 41) 1000 [] (2 / 5))"
    using C10_canRenderLabel_iff_no_collision [of "mkFeature ''a'' 1 41" 1000 "[]" "2 / 5"]
    by simp
  have appended: "snd (canRenderLabel (mkFeature ''a'' 1 41) 1000 [] (2 / 5))
      = [labelInterval (mkFeature ''a'' 1 41) 1000 (2 / 5)]"
    using C10_canRenderLabel_iff_no_collision [of "mkFeature ''a'' 1 41" 1000 "[]" "2 / 5"]
      accepted by simp
  have collides: "checkAngleCollision
      (start_a (labelInterval (mkFeature ''c'' 11 51) 1000 (2 / 5)))
      (end_a (labelInterval (mkFeature ''c'' 11 51) 1000 (2 / 5)))
      (start_a (labelInterval (mkFeature ''a'' 1 41) 1000 (2 / 5)))
      (end_a (labelInterval (mkFeature ''a'' 1 41) 1000 (2 / 5)))"
    using pi_ge_two pi_less_4
    by (simp add: checkAngleCollision_def labelInterval_def angularMidpoint_def
        angleForPosition_def mkFeature_def)
  have rejected: "\<not> fst (canRenderLabel (mkFeature ''c'' 11 51) 1000
      [labelInterval (mkFeature ''a'' 1 41) 1000 (2 / 5)] (2 / 5))"
    using C10_canRenderLabel_iff_no_collision [of "mkFeature ''c'' 11 51" 1000
        "[labelInterval (mkFeature ''a'' 1 41) 1000 (2 / 5)]" "2 / 5"] collides
    by simp
  have unchanged: "snd (canRenderLabel (mkFeature ''c'' 11 51) 1000
      [labelInterval (mkFeature ''a'' 1 41) 1000 (2 / 5)] (2 / 5))
      = [labelInterval (mkFeature ''a'' 1 41) 1000 (2 / 5)]"
    using C10_canRenderLabel_iff_no_collision [of "mkFeature ''c'' 11 51" 1000
        "[labelInterval (mkFeature ''a'' 1 41) 1000 (2 / 5)]" "2 / 5"] rejected
    by simp
  show ?thesis
    using accepted appended rejected unchanged by (simp add: prod_eq_iff)
qed

subsection \<open>C6: the level of detail of a zoom level\<close>

lemma firstMatch_None:
  "(\<forall>l \<in> set ls. \<not> inBucket l z) \<Longrightarrow> firstMatch ls z = None"
  by (induction ls) (auto simp: inBucket_def)

lemma getLOD_default_unique:
  assumes "0 \<le> z"
  shows "\<exists>l. getLOD newLODManager z = Some l \<and> l \<in> set defaultLevels \<and> inBucket l z \<and>
     (\<forall>l' \<in> set defaultLevels. inBucket l' z \<longrightarrow> l' = l)"
proof -
  consider "z < 1/10" | "1/10 \<le> z" "z < 1/2" | "1/2 \<le> z" "z < 1" | "1 \<le> z" "z < 2"
    | "2 \<le> z" "z < 5" | "5 \<le> z" by linarith
  then show ?thesis
    using assms
    by cases (simp_all add: getLOD_def newLODManager_def defaultLevels_def inBucket_def)
qed

lemma defaultLevels_no_gaps:
  "length defaultLevels = 6 \<and> minZoom (hd defaultLevels) = 0 \<and>
   (\<forall>i < 5. maxZoom (defaultLevels ! i) = Finite (minZoom (defaultLevels ! Suc i))) \<and>
   maxZoom (last defaultLevels) = Infinity"
  by (simp add: defaultLevels_def All_less_Suc numeral_eq_Suc)

lemma getLOD_fallback:
  "levels m \<noteq> [] \<Longrightarrow> (\<forall>l \<in> set (levels m). \<not> inBucket l z) \<Longrightarrow>
   getLOD m z = Some (last (levels m))"
  by (simp add: getLOD_def firstMatch_None)

text \<open>
  C6, in three parts. For every zoom level \<open>z \<ge> 0\<close>, \<^verbatim>\<open>getLOD\<close> on the manager the
  constructor builds returns a level of the default table with \<open>minZoom \<le> z < maxZoom\<close>,
  and no other level of the table holds \<open>z\<close>. The default table has six levels, starts at
  0, every level ends where the next one starts, and the last one ends at infinity. On any
  non-empty table, a zoom level that no level holds gets the last level.
\<close>

theorem C6_getLOD_unique_bucket:
  "(0 \<le> z \<longrightarrow>
      (\<exists>l. getLOD newLODManager z = Some l \<and> l \<in> set defaultLevels \<and> inBucket l z \<and>
           (\<forall>l' \<in> set defaultLevels. inBucket l' z \<longrightarrow> l' = l)))
   \<and> (length defaultLevels = 6 \<and> minZoom (hd defaultLevels) = 0 \<and>
      (\<forall>i < 5. maxZoom (defaultLevels ! i) = Finite (minZoom (defaultLevels ! Suc i))) \<and>
      maxZoom (last defaultLevels) = Infinity)
   \<and> (levels m \<noteq> [] \<and> (\<forall>l \<in> set (levels m). \<not> inBucket l z') \<longrightarrow>
        getLOD m z' = Some (last (levels m)))"
  using getLOD_default_unique [of z] defaultLevels_no_gaps getLOD_fallback [of m z']
  by blast

theorem C6_getLOD_witness:
  "(\<exists>l. getLOD newLODManager (3 / 2) = Some l \<and> minZoom l = 1 \<and> maxZoom l = Finite 2
        \<and> showLabels l)
   \<and> getLOD newLODManager (- 1) = Some (last defaultLevels)"
proof -
  have "(0::real) \<le> 3 / 2" by simp
  with C6_getLOD_unique_bucket [of "3 / 2"]
  obtain l where l: "getLOD newLODManager (3 / 2) = Some l" "l \<in> set defaultLevels"
      "inBucket l (3 / 2)"
    by blast
  from l(2,3) have "minZoom l = 1 \<and> maxZoom l = Finite 2 \<and> showLabels l"
    by (auto simp: defaultLevels_def inBucket_def)
  with l(1) have first: "\<exists>l. getLOD newLODManager (3 / 2) = Some l \<and> minZoom l = 1
      \<and> maxZoom l = Finite 2 \<and> showLabels l"
    by blast
  have nonempty: "levels newLODManager \<noteq> []"
    by (simp add: newLODManager_def defaultLevels_def)
  have none: "\<forall>l \<in> set (levels newLODManager). \<not> inBucket l (- 1)"
    by (simp add: newLODManager_def defaultLevels_def inBucket_def)
  from C6_getLOD_unique_bucket [of _ newLODManager "- 1"] nonempty none
  have "getLOD newLODManager (- 1) = Some (last (levels newLODManager))"
    by blast
  then have second: "getLOD newLODManager (- 1) = Some (last defaultLevels)"
    by (simp add: newLODManager_def)
  from first second show ?thesis by blast
qed

subsection \<open>C9: a feature survives toJSON and fromJSON\<close>

lemma newFeature_invariant:
  "id_f (newFeature d s) \<noteq> [] \<and> type_f (newFeature d s) \<noteq> []
   \<and> start (newFeature d s) \<le> end_f (newFeature d s)"
  by (simp add: newFeature_def Let_def orString_def generateId_def split: option.splits)

lemma fromJSON_toJSON_id:
  "id_f f \<noteq> [] \<Longrightarrow> type_f f \<noteq> [] \<Longrightarrow> start f \<le> end_f f \<Longrightarrow> fromJSON (toJSON f) s = f"
  by (simp add: fromJSON_def toJSON_def newFeature_def Let_def orString_def orNumber_def)

text \<open>
  C9. A \<^verbatim>\<open>Feature\<close> instance is what the constructor returns, for any argument \<open>d\<close> and
  any generated id text \<open>s1\<close>. Serialising it with \<^verbatim>\<open>toJSON\<close> and reading it back with
  \<^verbatim>\<open>fromJSON\<close> (whatever id \<open>s2\<close> the second constructor call would generate) gives the
  same id, name, type, start, end and strand, and the same attribute under every key.
\<close>

theorem C9_feature_roundtrip:
  "id_f (fromJSON (toJSON (newFeature d s1)) s2) = id_f (newFeature d s1)
   \<and> name_f (fromJSON (toJSON (newFeature d s1)) s2) = name_f (newFeature d s1)
   \<and> type_f (fromJSON (toJSON (newFeature d s1)) s2) = type_f (newFeature d s1)
   \<and> start (fromJSON (toJSON (newFeature d s1)) s2) = start (newFeature d s1)
   \<and> end_f (fromJSON (toJSON (newFeature d s1)) s2) = end_f (newFeature d s1)
   \<and> strand (fromJSON (toJSON (newFeature d s1)) s2) = strand (newFeature d s1)
   \<and> (\<forall>k. attributes (fromJSON (toJSON (newFeature d s1)) s2) k
          = attributes (newFeature d s1) k)"
  using newFeature_invariant [of d s1] by (simp add: fromJSON_toJSON_id)

theorem C9_feature_roundtrip_witness:
  "id_f (fromJSON (toJSON (newFeature exampleData ''17_42'')) ''18_7'') = ''feature_17_42''
   \<and> name_f (fromJSON (toJSON (newFeature exampleData ''17_42'')) ''18_7'') = Some ''dnaA''
   \<and> type_f (fromJSON (toJSON (newFeature exampleData ''17_42'')) ''18_7'') = ''CDS''
   \<and> start (fromJSON (toJSON (newFeature exampleData ''17_42'')) ''18_7'') = 100
   \<and> end_f (fromJSON (toJSON (newFeature exampleData ''17_42'')) ''18_7'') = 200
   \<and> strand (fromJSON (toJSON (newFeature exampleData ''17_42'')) ''18_7'') = Minus
   \<and> attributes (fromJSON (toJSON (newFeature exampleData ''17_42'')) ''18_7'') ''gene''
        = Some ''dnaA''"
proof -
  have made: "newFeature exampleData ''17_42'' =
      \<lparr>id_f = ''feature_17_42'', name_f = Some ''dnaA'', type_f = ''CDS'', start = 100,
       end_f = 200, strand = Minus, attributes = [''gene'' \<mapsto> ''dnaA''], sequenceId = None\<rparr>"
    by (simp add: newFeature_def exampleData_def orString_def orNumber_def generateId_def)
  show ?thesis
    using C9_feature_roundtrip [of exampleData "''17_42''" "''18_7''"]
    unfolding made by simp
qed

subsection \<open>C5: track heights and band radii\<close>

lemma nonGC_loop:
  "renderCanvasNonGCTracks ts (R - real k0 * (h + s)) h s =
     (map (\<lambda>(k, t). bandAt R h s k t) (enumerate k0 ts), R - real (k0 + length ts) * (h + s))"
proof (induction ts arbitrary: k0)
  case Nil
  then show ?case by simp
next
  case (Cons t ts)
  have step: "R - real k0 * (h + s) - (h + s) = R - real (Suc k0) * (h + s)"
    by (simp add: algebra_simps)
  have "renderCanvasNonGCTracks (t # ts) (R - real k0 * (h + s)) h s =
      (bandAt R h s k0 t # map (\<lambda>(k, t). bandAt R h s k t) (enumerate (Suc k0) ts),
       R - real (Suc k0 + length ts) * (h + s))"
    by (simp only: renderCanvasNonGCTracks.simps Let_def step Cons.IH prod.case bandAt_def)
  then show ?case by simp
qed

lemma nonGC_loop0:
  "renderCanvasNonGCTracks ts R h s = (expectedBands R h s ts, R - real (length ts) * (h + s))"
  using nonGC_loop [of ts R 0 h s] by (simp add: expectedBands_def)

lemma expectedBands_append:
  "expectedBands R h s (ts @ us) =
     expectedBands R h s ts @ map (\<lambda>(k, t). bandAt R h s k t) (enumerate (length ts) us)"
  by (simp add: expectedBands_def enumerate_append_eq)

lemma calc_height:
  "MIN_TRACK_HEIGHT cfg \<le> MAX_TRACK_HEIGHT cfg \<Longrightarrow>
   calculateTrackHeight cfg fr (length (filter (\<lambda>t. visible t \<and> \<not> isGCType (type_t t)) ts))
      (gcContentShown ts) (gcSkewShown ts)
     = bandHeight cfg (radius_fr fr) ts"
  by (simp add: calculateTrackHeight_def bandHeight_def visibleCount_def clamp_def Let_def
      min_def max_def)

lemma filter_nonGC:
  "filter visible (filter (\<lambda>track. type_t track \<noteq> ''gc_content'' \<and>
       type_t track \<noteq> ''gc_skew_plus'' \<and> type_t track \<noteq> ''gc_skew_minus'') ts)
   = filter (\<lambda>t. visible t \<and> \<not> isGCType (type_t t)) ts"
  by (simp add: isGCType_def conj_commute)

lemma render_closed_form:
  assumes "genome this = Some g" "radius_fr (featureRenderer this) = radius_r this"
    "MIN_TRACK_HEIGHT cfg \<le> MAX_TRACK_HEIGHT cfg"
  shows "renderCanvasFeatures cfg this =
     Some (expectedBands (radius_r this) (bandHeight cfg (radius_r this) (tracks g))
             (TRACK_SPACING cfg) (bandTracks (tracks g)))"
proof -
  let ?ts = "tracks g"
  let ?h = "bandHeight cfg (radius_r this) ?ts"
  have h: "calculateTrackHeight cfg (featureRenderer this)
      (length (filter (\<lambda>t. visible t \<and> \<not> isGCType (type_t t)) ?ts))
      (trackVisible (find (\<lambda>track. type_t track = ''gc_content'') ?ts))
      (trackVisible (find (\<lambda>track. type_t track = ''gc_skew_plus'') ?ts) \<or>
       trackVisible (find (\<lambda>track. type_t track = ''gc_skew_minus'') ?ts)) = ?h"
    using calc_height [OF assms(3), of "featureRenderer this" ?ts] assms(2)
    by (simp add: gcContentShown_def gcSkewShown_def firstOfType_def)
  show ?thesis
    unfolding renderCanvasFeatures_def assms(1) Let_def filter_nonGC h option.case nonGC_loop0
    by (auto simp: bandTracks_def firstOfType_def shownTrack_def trackVisible_def
        renderCanvasGCTrack_def renderCanvasGCSkewTracks_def expectedBands_append bandAt_def
        algebra_simps
        split: option.splits)
qed


lemma find_unique:
  "length (filter P ts) \<le> 1 \<Longrightarrow> find P ts = Some t \<Longrightarrow> t' \<in> set ts \<Longrightarrow> P t' \<Longrightarrow> t' = t"
proof (induction ts)
  case Nil
  then show ?case by simp
next
  case (Cons a ts)
  show ?case
  proof (cases "P a")
    case True
    with Cons.prems(1) have "filter P ts = []" by simp
    then have none: "\<forall>x \<in> set ts. \<not> P x" by (simp add: filter_empty_conv)
    from True Cons.prems(2) have "t = a" by simp
    moreover from none Cons.prems(3,4) have "t' = a" by auto
    ultimately show ?thesis by simp
  next
    case False
    with Cons.prems have "length (filter P ts) \<le> 1" "find P ts = Some t" "t' \<in> set ts"
      by auto
    then show ?thesis using Cons.prems(4) by (rule Cons.IH)
  qed
qed

lemma trackVisible_find_iff:
  assumes "length (filter P ts) \<le> 1"
  shows "trackVisible (find P ts) \<longleftrightarrow> (\<exists>t \<in> set ts. P t \<and> visible t)"
proof (cases "find P ts")
  case None
  then have "\<forall>t \<in> set ts. \<not> P t" by (simp add: find_None_iff)
  then have "\<not> (\<exists>t \<in> set ts. P t \<and> visible t)" by blast
  moreover from None have "\<not> trackVisible (find P ts)" by (simp add: trackVisible_def)
  ultimately show ?thesis by blast
next
  case (Some t)
  then have t: "t \<in> set ts" "P t" by (auto simp: find_Some_iff)
  have vis: "trackVisible (find P ts) \<longleftrightarrow> visible t"
    using Some by (simp add: trackVisible_def)
  have "(\<exists>t' \<in> set ts. P t' \<and> visible t') \<longleftrightarrow> visible t"
  proof
    assume "\<exists>t' \<in> set ts. P t' \<and> visible t'"
    then obtain t' where t': "t' \<in> set ts" "P t'" "visible t'" by blast
    from assms Some t'(1,2) have "t' = t" by (rule find_unique)
    with t'(3) show "visible t" by simp
  next
    assume "visible t"
    with t show "\<exists>t' \<in> set ts. P t' \<and> visible t'" by blast
  qed
  with vis show ?thesis by simp
qed

lemma shown_iff_exists:
  assumes "onePerGCType ts"
  shows "(gcContentShown ts \<longleftrightarrow> (\<exists>t \<in> set ts. type_t t = ''gc_content'' \<and> visible t))
    \<and> (gcSkewShown ts \<longleftrightarrow>
         (\<exists>t \<in> set ts. (type_t t = ''gc_skew_plus'' \<or> type_t t = ''gc_skew_minus'') \<and> visible t))"
proof -
  from assms have one:
    "length (filter (\<lambda>t. type_t t = ''gc_content'') ts) \<le> 1"
    "length (filter (\<lambda>t. type_t t = ''gc_skew_plus'') ts) \<le> 1"
    "length (filter (\<lambda>t. type_t t = ''gc_skew_minus'') ts) \<le> 1"
    unfolding onePerGCType_def by blast+
  have c: "gcContentShown ts \<longleftrightarrow> (\<exists>t \<in> set ts. type_t t = ''gc_content'' \<and> visible t)"
    unfolding gcContentShown_def firstOfType_def by (rule trackVisible_find_iff [OF one(1)])
  have p: "trackVisible (firstOfType ''gc_skew_plus'' ts)
      \<longleftrightarrow> (\<exists>t \<in> set ts. type_t t = ''gc_skew_plus'' \<and> visible t)"
    unfolding firstOfType_def by (rule trackVisible_find_iff [OF one(2)])
  have m: "trackVisible (firstOfType ''gc_skew_minus'' ts)
      \<longleftrightarrow> (\<exists>t \<in> set ts. type_t t = ''gc_skew_minus'' \<and> visible t)"
    unfolding firstOfType_def by (rule trackVisible_find_iff [OF one(3)])
  have s: "gcSkewShown ts \<longleftrightarrow>
      (\<exists>t \<in> set ts. (type_t t = ''gc_skew_plus'' \<or> type_t t = ''gc_skew_minus'') \<and> visible t)"
    unfolding gcSkewShown_def p m by blast
  from c s show ?thesis by (rule conjI)
qed

lemma length_bandTracks: "length (bandTracks ts) = visibleCount ts"
  by (auto simp: bandTracks_def visibleCount_def shownTrack_def gcContentShown_def
      gcSkewShown_def trackVisible_def split: option.splits)

lemma expectedBands_nth:
  "k < length ts \<Longrightarrow> expectedBands R h s ts ! k = bandAt R h s k (ts ! k)"
  by (simp add: expectedBands_def nth_enumerate_eq)

text \<open>
  C5. When a genome is loaded, the feature renderer has the renderer's radius and
  \<^verbatim>\<open>MIN_TRACK_HEIGHT\<close> is not above \<^verbatim>\<open>MAX_TRACK_HEIGHT\<close>, \<^verbatim>\<open>renderCanvasFeatures\<close>
  completes and draws one band per counted track: as many bands as the count of the
  claim; every band has the height \<open>clamp (R / (count + 2)) MIN MAX\<close>; band number \<open>k\<close> has
  the outer radius \<open>R - k \<cdot> (height + TRACK_SPACING)\<close>, so the radii start at \<open>R\<close> and fall
  by exactly \<open>height + TRACK_SPACING\<close> from one band to the next; and the bands come in the
  order non-GC tracks (list order), \<^verbatim>\<open>gc_content\<close>, skew band. "Visible" for a GC type is
  read as the code reads it, on the first track of that type; when no GC type occurs twice
  this is the same as some track of that type being visible.
\<close>

theorem C5_track_layout:
  assumes "genome this = Some g"
    and "radius_fr (featureRenderer this) = radius_r this"
    and "MIN_TRACK_HEIGHT cfg \<le> MAX_TRACK_HEIGHT cfg"
  shows "\<exists>bands. renderCanvasFeatures cfg this = Some bands
     \<and> length bands = visibleCount (tracks g)
     \<and> (\<forall>k < length bands.
          trackHeight_b (bands ! k) = bandHeight cfg (radius_r this) (tracks g)
        \<and> radius_b (bands ! k) = radius_r this
            - real k * (bandHeight cfg (radius_r this) (tracks g) + TRACK_SPACING cfg))
     \<and> map (\<lambda>b. (trackColor_b b, trackType_b b)) bands
         = map (\<lambda>t. (color t, type_t t)) (bandTracks (tracks g))
     \<and> (onePerGCType (tracks g) \<longrightarrow>
          (gcContentShown (tracks g) \<longleftrightarrow>
             (\<exists>t \<in> set (tracks g). type_t t = ''gc_content'' \<and> visible t))
        \<and> (gcSkewShown (tracks g) \<longleftrightarrow>
             (\<exists>t \<in> set (tracks g).
                (type_t t = ''gc_skew_plus'' \<or> type_t t = ''gc_skew_minus'') \<and> visible t)))"
proof -
  let ?R = "radius_r this"
  let ?h = "bandHeight cfg ?R (tracks g)"
  let ?bands = "expectedBands ?R ?h (TRACK_SPACING cfg) (bandTracks (tracks g))"
  have run: "renderCanvasFeatures cfg this = Some ?bands"
    using assms by (rule render_closed_form)
  have len: "length ?bands = visibleCount (tracks g)"
    by (simp add: expectedBands_def length_bandTracks)
  have each: "\<forall>k < length ?bands. trackHeight_b (?bands ! k) = ?h
      \<and> radius_b (?bands ! k) = ?R - real k * (?h + TRACK_SPACING cfg)"
    by (simp add: expectedBands_def nth_enumerate_eq bandAt_def)
  have order: "map (\<lambda>b. (trackColor_b b, trackType_b b)) ?bands
      = map (\<lambda>t. (color t, type_t t)) (bandTracks (tracks g))"
    by (rule nth_equalityI) (simp_all add: expectedBands_def nth_enumerate_eq bandAt_def)
  have words: "onePerGCType (tracks g) \<longrightarrow>
          (gcContentShown (tracks g) \<longleftrightarrow>
             (\<exists>t \<in> set (tracks g). type_t t = ''gc_content'' \<and> visible t))
        \<and> (gcSkewShown (tracks g) \<longleftrightarrow>
             (\<exists>t \<in> set (tracks g).
                (type_t t = ''gc_skew_plus'' \<or> type_t t = ''gc_skew_minus'') \<and> visible t))"
    using shown_iff_exists [of "tracks g"] by (rule impI)
  show ?thesis
    by (rule exI [of _ ?bands]) (intro conjI run len each order words)
qed

theorem C5_track_layout_witness:
  "\<exists>bands. renderCanvasFeatures exampleConfig exampleCircularRenderer = Some bands
     \<and> map radius_b bands = [200, 165, 130, 95]
     \<and> map trackHeight_b bands = [30, 30, 30, 30]
     \<and> map trackType_b bands = [''CDS'', ''rRNA'', ''gc_content'', ''gc_skew_minus'']"
proof -
  have g: "genome exampleCircularRenderer = Some \<lparr>tracks = exampleTracks, length_g = 10000\<rparr>"
    by (simp add: exampleCircularRenderer_def)
  have r: "radius_fr (featureRenderer exampleCircularRenderer) = radius_r exampleCircularRenderer"
    by (simp add: exampleCircularRenderer_def exampleRenderer_def)
  have m: "MIN_TRACK_HEIGHT exampleConfig \<le> MAX_TRACK_HEIGHT exampleConfig"
    by (simp add: exampleConfig_def)
  have R: "radius_r exampleCircularRenderer = 200"
    by (simp add: exampleCircularRenderer_def)
  have n: "visibleCount exampleTracks = 4"
    by (simp add: visibleCount_def exampleTracks_def exampleTrack_def isGCType_def
        gcContentShown_def gcSkewShown_def firstOfType_def trackVisible_def)
  have h: "bandHeight exampleConfig 200 exampleTracks = 30"
    by (simp add: bandHeight_def n clamp_def exampleConfig_def)
  have s: "TRACK_SPACING exampleConfig = 5"
    by (simp add: exampleConfig_def)
  have bt: "map type_t (bandTracks exampleTracks)
      = [''CDS'', ''rRNA'', ''gc_content'', ''gc_skew_minus'']"
    by (simp add: bandTracks_def exampleTracks_def exampleTrack_def isGCType_def shownTrack_def
        firstOfType_def trackVisible_def)
  let ?g = "\<lparr>tracks = exampleTracks, length_g = 10000\<rparr>"
  from C5_track_layout [OF g r m]
  obtain bands where run: "renderCanvasFeatures exampleConfig exampleCircularRenderer = Some bands"
    and len0: "length bands = visibleCount (tracks ?g)"
    and each0: "\<forall>k < length bands.
        trackHeight_b (bands ! k)
          = bandHeight exampleConfig (radius_r exampleCircularRenderer) (tracks ?g)
      \<and> radius_b (bands ! k) = radius_r exampleCircularRenderer
          - real k * (bandHeight exampleConfig (radius_r exampleCircularRenderer) (tracks ?g)
              + TRACK_SPACING exampleConfig)"
    and order0: "map (\<lambda>b. (trackColor_b b, trackType_b b)) bands
        = map (\<lambda>t. (color t, type_t t)) (bandTracks (tracks ?g))"
    by blast
  have tr: "tracks ?g = exampleTracks" by simp
  from len0 have len: "length bands = 4"
    unfolding tr n .
  from each0 have each: "\<forall>k < length bands. trackHeight_b (bands ! k) = 30
        \<and> radius_b (bands ! k) = 200 - real k * (30 + 5)"
    unfolding tr R h s .
  from order0 have order: "map (\<lambda>b. (trackColor_b b, trackType_b b)) bands
        = map (\<lambda>t. (color t, type_t t)) (bandTracks exampleTracks)"
    unfolding tr .
  from len obtain b0 b1 b2 b3 where bands: "bands = [b0, b1, b2, b3]"
    by (auto simp: length_Suc_conv numeral_eq_Suc)
  from each have radii: "map radius_b bands = [200, 165, 130, 95]"
    and heights: "map trackHeight_b bands = [30, 30, 30, 30]"
    unfolding bands by (simp_all add: All_less_Suc numeral_eq_Suc)
  have "map trackType_b bands = map snd (map (\<lambda>b. (trackColor_b b, trackType_b b)) bands)"
    by simp
  also have "\<dots> = map type_t (bandTracks exampleTracks)"
    unfolding order by simp
  finally have types: "map trackType_b bands = [''CDS'', ''rRNA'', ''gc_content'', ''gc_skew_minus'']"
    unfolding bt .
  show ?thesis
    by (rule exI [of _ bands]) (intro conjI run radii heights types)
qed

subsection \<open>C4: the angles of a narrow feature\<close>

lemma base_eq:
  "(end_f f / gl) * pi * 2 - (start f / gl) * pi * 2 = baseSpan f gl"
  "((start f / gl) * pi * 2 + (end_f f / gl) * pi * 2) / 2 = angularMidpoint f gl"
  by (simp_all add: baseSpan_def angularMidpoint_def angleForPosition_def mult_ac)

lemma featureAngles_narrow:
  assumes "baseSpan f gl < MIN_ANGLE_WIDTH cfg"
  shows "featureAngles cfg f gl =
     \<lparr>startAngle = angularMidpoint f gl - MIN_ANGLE_WIDTH cfg / 2 + gapFor cfg (MIN_ANGLE_WIDTH cfg),
      endAngle = angularMidpoint f gl + MIN_ANGLE_WIDTH cfg / 2 - gapFor cfg (MIN_ANGLE_WIDTH cfg),
      angleWidth = MIN_ANGLE_WIDTH cfg - 2 * gapFor cfg (MIN_ANGLE_WIDTH cfg)\<rparr>"
  unfolding featureAngles_def Let_def base_eq
  using assms by (simp add: gapFor_def)


text \<open>
  C4 as amended. For a feature whose base angular span is below \<^verbatim>\<open>MIN_ANGLE_WIDTH\<close>, the
  span is widened to \<^verbatim>\<open>MIN_ANGLE_WIDTH\<close> around the feature's angular midpoint and then
  shortened by the gap angle \<open>g = min MAX_GAP (max MIN_GAP (MIN_ANGLE_WIDTH \<cdot> GAP_RATIO))\<close>
  at each end: the angles handed to the drawing span \<open>MIN_ANGLE_WIDTH - 2g\<close> and are centred
  on the original midpoint. On a non-GC track a feature that is not highlighted is drawn
  with exactly these angles when \<open>MIN_ANGLE_WIDTH - 2g > 0\<close> and not drawn otherwise, on
  the canvas and in SVG alike.
\<close>

theorem C4_min_width_then_gap:
  assumes "baseSpan f gl < MIN_ANGLE_WIDTH cfg"
  shows "endAngle (featureAngles cfg f gl) - startAngle (featureAngles cfg f gl)
           = MIN_ANGLE_WIDTH cfg - 2 * gapFor cfg (MIN_ANGLE_WIDTH cfg)
     \<and> (startAngle (featureAngles cfg f gl) + endAngle (featureAngles cfg f gl)) / 2
           = angularMidpoint f gl
     \<and> (\<not> isGCType (type_t track) \<and> \<not> isHighlighted this f \<longrightarrow>
          renderCanvasFeature cfg this f track radius trackHeight gl =
            (if MIN_ANGLE_WIDTH cfg - 2 * gapFor cfg (MIN_ANGLE_WIDTH cfg) > 0
             then CanvasArc radius (radius - trackHeight)
                    (startAngle (featureAngles cfg f gl)) (endAngle (featureAngles cfg f gl))
             else CanvasNothing)
        \<and> renderSvgFeature fmt cfg this f track radius trackHeight gl True =
            (if MIN_ANGLE_WIDTH cfg - 2 * gapFor cfg (MIN_ANGLE_WIDTH cfg) > 0
             then SvgPath (createArcPath fmt (centerX_fr this) (centerY_fr this) radius
                    (radius - trackHeight)
                    (startAngle (featureAngles cfg f gl)) (endAngle (featureAngles cfg f gl)))
             else SvgNothing))"
proof -
  note a = featureAngles_narrow [OF assms]
  have span: "endAngle (featureAngles cfg f gl) - startAngle (featureAngles cfg f gl)
      = MIN_ANGLE_WIDTH cfg - 2 * gapFor cfg (MIN_ANGLE_WIDTH cfg)"
    by (simp add: a)
  have mid: "(startAngle (featureAngles cfg f gl) + endAngle (featureAngles cfg f gl)) / 2
      = angularMidpoint f gl"
    by (simp add: a)
  have width: "angleWidth (featureAngles cfg f gl)
      = MIN_ANGLE_WIDTH cfg - 2 * gapFor cfg (MIN_ANGLE_WIDTH cfg)"
    by (simp add: a)
  have draw: "\<not> isGCType (type_t track) \<and> \<not> isHighlighted this f \<longrightarrow>
      renderCanvasFeature cfg this f track radius trackHeight gl =
        (if MIN_ANGLE_WIDTH cfg - 2 * gapFor cfg (MIN_ANGLE_WIDTH cfg) > 0
         then CanvasArc radius (radius - trackHeight)
                (startAngle (featureAngles cfg f gl)) (endAngle (featureAngles cfg f gl))
         else CanvasNothing)
    \<and> renderSvgFeature fmt cfg this f track radius trackHeight gl True =
        (if MIN_ANGLE_WIDTH cfg - 2 * gapFor cfg (MIN_ANGLE_WIDTH cfg) > 0
         then SvgPath (createArcPath fmt (centerX_fr this) (centerY_fr this) radius
                (radius - trackHeight)
                (startAngle (featureAngles cfg f gl)) (endAngle (featureAngles cfg f gl)))
         else SvgNothing)"
    by (simp add: renderCanvasFeature_def renderSvgFeature_def Let_def width isGCType_def)
  from span mid draw show ?thesis by (intro conjI)
qed

lemma ex_narrow: "baseSpan (mkFeature ''g'' 100 100) 10000 < MIN_ANGLE_WIDTH exampleConfig"
  by (simp add: baseSpan_def mkFeature_def exampleConfig_def)

lemma ex_gap: "gapFor exampleConfig (MIN_ANGLE_WIDTH exampleConfig) = 1 / 1000"
  by (simp add: gapFor_def exampleConfig_def)

lemma narrow_span_below_min:
  assumes "baseSpan f gl < MIN_ANGLE_WIDTH cfg" and "0 < gapFor cfg (MIN_ANGLE_WIDTH cfg)"
  shows "endAngle (featureAngles cfg f gl) - startAngle (featureAngles cfg f gl)
           < MIN_ANGLE_WIDTH cfg"
  using assms(2) by (simp add: featureAngles_narrow [OF assms(1)])

text \<open>
  C4 as stated fails wherever the gap is positive (\<open>narrow_span_below_min\<close>). With \<^verbatim>\<open>MIN_ANGLE_WIDTH\<close> 0.01 and a gap
  between 0.001 and 0.005, the one-base feature [100,100] of a genome of length 10000 has
  base span 0 and is drawn from \<open>\<pi>/50 - 0.004\<close> to \<open>\<pi>/50 + 0.004\<close>: a span of 0.008, not
  0.01.
\<close>

theorem C4_rendered_span_counterexample:
  "baseSpan (mkFeature ''g'' 100 100) 10000 < MIN_ANGLE_WIDTH exampleConfig
   \<and> renderCanvasFeature exampleConfig exampleRenderer (mkFeature ''g'' 100 100)
        (exampleTrack ''CDS'' True) 200 30 10000
       = CanvasArc 200 170 (pi / 50 - 4 / 1000) (pi / 50 + 4 / 1000)
   \<and> (pi / 50 + 4 / 1000) - (pi / 50 - 4 / 1000) \<noteq> MIN_ANGLE_WIDTH exampleConfig"
  by (simp add: renderCanvasFeature_def featureAngles_def Let_def baseSpan_def mkFeature_def
      exampleConfig_def exampleTrack_def exampleRenderer_def isHighlighted_def
      angleForPosition_def)

theorem C4_min_width_witness:
  "endAngle (featureAngles exampleConfig (mkFeature ''g'' 100 100) 10000)
     - startAngle (featureAngles exampleConfig (mkFeature ''g'' 100 100) 10000) = 8 / 1000
   \<and> (startAngle (featureAngles exampleConfig (mkFeature ''g'' 100 100) 10000)
      + endAngle (featureAngles exampleConfig (mkFeature ''g'' 100 100) 10000)) / 2 = pi / 50
   \<and> renderCanvasFeature exampleConfig exampleRenderer (mkFeature ''g'' 100 100)
        (exampleTrack ''CDS'' True) 200 30 10000
      = CanvasArc 200 170
          (startAngle (featureAngles exampleConfig (mkFeature ''g'' 100 100) 10000))
          (endAngle (featureAngles exampleConfig (mkFeature ''g'' 100 100) 10000))"
proof -
  have plain: "\<not> isGCType (type_t (exampleTrack ''CDS'' True))
      \<and> \<not> isHighlighted exampleRenderer (mkFeature ''g'' 100 100)"
    by (simp add: isGCType_def exampleTrack_def isHighlighted_def exampleRenderer_def)
  have mid: "angularMidpoint (mkFeature ''g'' 100 100) 10000 = pi / 50"
    by (simp add: angularMidpoint_def angleForPosition_def mkFeature_def)
  have min: "MIN_ANGLE_WIDTH exampleConfig = 1 / 100"
    by (simp add: exampleConfig_def)
  have gap: "MIN_ANGLE_WIDTH exampleConfig - 2 * gapFor exampleConfig (MIN_ANGLE_WIDTH exampleConfig)
      = 8 / 1000"
    unfolding ex_gap by (simp add: min)
  show ?thesis
    using C4_min_width_then_gap [OF ex_narrow, of "exampleTrack ''CDS'' True" exampleRenderer
        200 30 "\<lambda>x. []"] plain
    unfolding gap mid by simp
qed

subsection \<open>C7: the path text of an annulus sector\<close>

lemma largeArcFlag_text:
  "numberToString fmt (if b then 1 else 0) = (if b then ''1'' else ''0'')"
  by (simp add: numberToString_def)

text \<open>
  C7. For every centre, radii and angles the text \<^verbatim>\<open>createArcPath\<close> returns is an
  instance of the grammar: the first arc has \<open>rx = ry = outerRadius\<close>, the second
  \<open>rx = ry = innerRadius\<close>, both carry the same large-arc flag, which is the text 1 if
  \<open>endAngle - startAngle > \<pi>\<close> and 0 otherwise; the sweep flag is 1 on the first arc and 0
  on the second. The four points are the corners of the sector.
\<close>

theorem C7_createArcPath_grammar:
  "createArcPath fmt cx cy ro ri sa ea =
     sectorPath
       (numberToString fmt (cx + cos sa * ro), numberToString fmt (cy + sin sa * ro))
       \<lparr>rx = numberToString fmt ro, ry = numberToString fmt ro,
        largeArc = (if ea - sa > pi then ''1'' else ''0''), sweep = ''1'',
        x_to = numberToString fmt (cx + cos ea * ro),
        y_to = numberToString fmt (cy + sin ea * ro)\<rparr>
       (numberToString fmt (cx + cos ea * ri), numberToString fmt (cy + sin ea * ri))
       \<lparr>rx = numberToString fmt ri, ry = numberToString fmt ri,
        largeArc = (if ea - sa > pi then ''1'' else ''0''), sweep = ''0'',
        x_to = numberToString fmt (cx + cos sa * ri),
        y_to = numberToString fmt (cy + sin sa * ri)\<rparr>"
  unfolding createArcPath_def sectorPath_def arcWords_def Let_def largeArcFlag_text
  by (simp only: unwords.simps append_assoc append_Cons append_Nil fst_conv snd_conv
      ArcText.simps)

theorem C7_createArcPath_witness:
  "createArcPath (\<lambda>x. ''2'') 1 0 1 0 0 0 = ''M 2 0 A 1 1 0 0 1 2 0 L 1 0 A 0 0 0 0 0 1 0 Z''"
  using C7_createArcPath_grammar [of "\<lambda>x. ''2''" 1 0 1 0 0 0]
  by (simp add: sectorPath_def arcWords_def numberToString_def)

subsection \<open>C3: the point under the cursor stays under the cursor\<close>









subsection \<open>C8: panning adds the offset\<close>

lemma svg_pan_map:
  "setPanOffset offset stage (Some gs) ''svg'' = (stage, Some (map (svgPanGroup offset) gs))"
proof -
  have h: "(case matchTranslate (transform g) of
           Some (mx, my) \<Rightarrow> g\<lparr>transform := Some (Translate (mx + x_p offset) (my + y_p offset))\<rparr>
         | None \<Rightarrow> g\<lparr>transform := Some (Translate (x_p offset) (y_p offset))\<rparr>)
       = g\<lparr>transform := Some (Translate (fst (currentXY (transform g)) + x_p offset)
                                        (snd (currentXY (transform g)) + y_p offset))\<rparr>" for g
    by (simp add: currentXY_def split: option.splits)
  show ?thesis
    by (simp add: setPanOffset_def svgPanGroup_def h)
qed

text \<open>
  C8. On the canvas backend with a scene group on the stage, \<^verbatim>\<open>setPanOffset\<close> adds the
  offset to the scene group's position and changes nothing else: its scale, the other
  children of the stage (the legend container among them) and the SVG container stay as
  they were. On the SVG backend with a container, every scene group's translation becomes
  the old translation plus the offset, and every other group, the legend container among
  them, is returned unchanged.
\<close>

theorem C8_pan_adds_offset:
  "setPanOffset offset (Some (g # others)) svg ''canvas''
     = (Some (g\<lparr>position_x := position_x g + x_p offset,
                 position_y := position_y g + y_p offset\<rparr> # others), svg)
   \<and> (\<exists>gs'. setPanOffset offset stage (Some gs) ''svg'' = (stage, Some gs')
        \<and> length gs' = length gs
        \<and> (\<forall>i < length gs.
             (sceneGroup (gs ! i) \<longrightarrow>
                id_s (gs' ! i) = id_s (gs ! i)
              \<and> currentXY (transform (gs' ! i))
                  = (fst (currentXY (transform (gs ! i))) + x_p offset,
                     snd (currentXY (transform (gs ! i))) + y_p offset))
           \<and> (\<not> sceneGroup (gs ! i) \<longrightarrow> gs' ! i = gs ! i)))"
proof (rule conjI)
  show "setPanOffset offset (Some (g # others)) svg ''canvas''
     = (Some (g\<lparr>position_x := position_x g + x_p offset,
                 position_y := position_y g + y_p offset\<rparr> # others), svg)"
    by (simp add: setPanOffset_def)
next
  let ?gs' = "map (svgPanGroup offset) gs"
  have each: "\<forall>i < length gs.
             (sceneGroup (gs ! i) \<longrightarrow>
                id_s (?gs' ! i) = id_s (gs ! i)
              \<and> currentXY (transform (?gs' ! i))
                  = (fst (currentXY (transform (gs ! i))) + x_p offset,
                     snd (currentXY (transform (gs ! i))) + y_p offset))
           \<and> (\<not> sceneGroup (gs ! i) \<longrightarrow> ?gs' ! i = gs ! i)"
    by (simp add: svgPanGroup_def currentXY_def)
  show "\<exists>gs'. setPanOffset offset stage (Some gs) ''svg'' = (stage, Some gs')
        \<and> length gs' = length gs
        \<and> (\<forall>i < length gs.
             (sceneGroup (gs ! i) \<longrightarrow>
                id_s (gs' ! i) = id_s (gs ! i)
              \<and> currentXY (transform (gs' ! i))
                  = (fst (currentXY (transform (gs ! i))) + x_p offset,
                     snd (currentXY (transform (gs ! i))) + y_p offset))
           \<and> (\<not> sceneGroup (gs ! i) \<longrightarrow> gs' ! i = gs ! i))"
    by (rule exI [of _ ?gs']) (intro conjI svg_pan_map each, simp)
qed

theorem C8_pan_witness:
  "setPanOffset \<lparr>x_p = 5, y_p = - 3\<rparr> (Some exampleStage) None ''canvas''
     = (Some [\<lparr>position_x = 5, position_y = - 3, scale_x = 1, scale_y = 1\<rparr>,
              \<lparr>position_x = 0, position_y = 0, scale_x = 1, scale_y = 1\<rparr>], None)
   \<and> (\<exists>gs'. setPanOffset \<lparr>x_p = 5, y_p = - 3\<rparr> None (Some exampleSvg) ''svg'' = (None, Some gs')
        \<and> currentXY (transform (gs' ! 1)) = (15, 17)
        \<and> gs' ! 4 = \<lparr>id_s = ''legendContainer'', transform = None\<rparr>)"
proof -
  let ?off = "\<lparr>x_p = 5, y_p = - 3\<rparr>"
  let ?g = "\<lparr>position_x = 0, position_y = 0, scale_x = 1, scale_y = 1\<rparr>"
  note inst = C8_pan_adds_offset [of ?off ?g "[?g]" None None exampleSvg]
  from inst have canvas: "setPanOffset ?off (Some exampleStage) None ''canvas''
     = (Some [\<lparr>position_x = 5, position_y = - 3, scale_x = 1, scale_y = 1\<rparr>, ?g], None)"
    by (simp add: exampleStage_def)
  from inst obtain gs' where run: "setPanOffset ?off None (Some exampleSvg) ''svg'' = (None, Some gs')"
    and each: "\<forall>i < length exampleSvg.
             (sceneGroup (exampleSvg ! i) \<longrightarrow>
                id_s (gs' ! i) = id_s (exampleSvg ! i)
              \<and> currentXY (transform (gs' ! i))
                  = (fst (currentXY (transform (exampleSvg ! i))) + x_p ?off,
                     snd (currentXY (transform (exampleSvg ! i))) + y_p ?off))
           \<and> (\<not> sceneGroup (exampleSvg ! i) \<longrightarrow> gs' ! i = exampleSvg ! i)"
    by blast
  have one: "(1::nat) < length exampleSvg" "sceneGroup (exampleSvg ! 1)"
      "currentXY (transform (exampleSvg ! 1)) = (10, 20)"
    by (simp_all add: exampleSvg_def sceneGroup_def currentXY_def)
  have four: "(4::nat) < length exampleSvg" "\<not> sceneGroup (exampleSvg ! 4)"
      "exampleSvg ! 4 = \<lparr>id_s = ''legendContainer'', transform = None\<rparr>"
    by (simp_all add: exampleSvg_def sceneGroup_def)
  from each [rule_format, OF one(1)] one(2) have
    "currentXY (transform (gs' ! 1))
       = (fst (currentXY (transform (exampleSvg ! 1))) + x_p ?off,
          snd (currentXY (transform (exampleSvg ! 1))) + y_p ?off)"
    by blast
  then have moved: "currentXY (transform (gs' ! 1)) = (15, 17)"
    unfolding one(3) by simp
  from each [rule_format, OF four(1)] four(2) have "gs' ! 4 = exampleSvg ! 4"
    by blast
  then have legend: "gs' ! 4 = \<lparr>id_s = ''legendContainer'', transform = None\<rparr>"
    unfolding four(3) .
  from run moved legend have svg:
    "\<exists>gs'. setPanOffset ?off None (Some exampleSvg) ''svg'' = (None, Some gs')
        \<and> currentXY (transform (gs' ! 1)) = (15, 17)
        \<and> gs' ! 4 = \<lparr>id_s = ''legendContainer'', transform = None\<rparr>"
    by (intro exI [of _ gs']) simp
  from canvas svg show ?thesis by (rule conjI)
qed

end
